theory Spec2Isabelle
  imports Main "HOL-Library.Word"
begin

section \<open>The mining session engine of zion\_native\_miner\_v2\_9.py\<close>

text \<open>
  The theory embeds the parts of \<^verbatim>\<open>src/desktop-agent/resources/zion_native_miner_v2_9.py\<close>
  that convert a pool difficulty into a target and test a digest against it, hand out nonce
  ranges, install jobs, queue the jobs pushed by the pool, run the listener and submit
  shares. Python integers are \<open>int\<close>, byte strings are lists of 8-bit words, text is
  \<open>string\<close>, and every lock-protected block is one atomic state transformer.
\<close>

subsection \<open>Byte strings\<close>

type_synonym bytes = "8 word list"

text \<open>\<^verbatim>\<open>int.from_bytes(bs, 'little')\<close>: the first byte is the least significant one.\<close>

fun from_bytes_little :: "bytes \<Rightarrow> int" where
  "from_bytes_little [] = 0"
| "from_bytes_little (b # bs) = uint b + 256 * from_bytes_little bs"




subsection \<open>Difficulty to target\<close>

datatype Algorithm = COSMIC_HARMONY | RANDOMX | YESCRYPT

definition max_target_64 :: int where
  "max_target_64 = 0xFFFFFFFFFFFFFFFF"

definition max_target_256 :: int where
  "max_target_256 = 0xFFFFFFFFFFFFFFFFFFFFFFFFFFFFFFFFFFFFFFFFFFFFFFFFFFFFFFFFFFFFFFFF"

text \<open>
  Lines 1717 to 1739 of \<^verbatim>\<open>_update_job_from_stratum\<close>: the clamped difficulty and the three
  targets \<open>(target_64, target_256, target_cosmic32)\<close>, \<open>None\<close> where the code stores
  \<^verbatim>\<open>None\<close>. Python's \<^verbatim>\<open>//\<close> on a positive divisor is \<open>div\<close>, and \<^verbatim>\<open>>> 224\<close> is
  \<open>drop_bit 224\<close>.
\<close>

definition compute_targets :: "Algorithm \<Rightarrow> int \<Rightarrow> int option \<times> int option \<times> int option" where
  "compute_targets algorithm pool_difficulty =
     (let difficulty = max 1 pool_difficulty in
      if algorithm = RANDOMX then (Some (max_target_64 div difficulty), None, None)
      else
        (let target_256 = max_target_256 div difficulty in
         if algorithm = COSMIC_HARMONY then (None, Some target_256, Some (drop_bit 224 target_256))
         else (None, Some target_256, None)))"



subsection \<open>The nonce allocator\<close>

text \<open>
  \<^verbatim>\<open>_alloc_nonces\<close> (lines 1694 to 1699): under \<open>nonce_lock\<close> it reads the cursor, adds
  \<open>count\<close> and returns the old value. The locked block is one step on the cursor; the
  result is the start of the range and the new cursor.
\<close>

definition alloc_nonces :: "int \<Rightarrow> int \<Rightarrow> int \<times> int" where
  "alloc_nonces count nonce_cursor = (let start = nonce_cursor in (start, nonce_cursor + count))"

text \<open>
  A sequence of calls \<open>allocate(c\<^sub>1), ..., allocate(c\<^sub>n)\<close> in the order in which they
  take the lock: the starts returned, in that order, and the cursor left behind.
\<close>

fun alloc_all :: "int \<Rightarrow> int list \<Rightarrow> int list \<times> int" where
  "alloc_all nonce_cursor [] = ([], nonce_cursor)"
| "alloc_all nonce_cursor (count # counts) =
     (case alloc_nonces count nonce_cursor of
        (start, cursor') \<Rightarrow>
          (case alloc_all cursor' counts of (starts, final) \<Rightarrow> (start # starts, final)))"

text \<open>The nonces of a range: \<open>start, ..., start + count - 1\<close>.\<close>

definition nonce_range :: "int \<Rightarrow> int \<Rightarrow> int set" where
  "nonce_range start count = {start ..< start + count}"

subsection \<open>JSON values\<close>

text \<open>
  What \<^verbatim>\<open>json.loads\<close> yields, without floating-point numbers. \<open>JNull\<close> is Python's
  \<^verbatim>\<open>None\<close>; an object is the list of its members with pairwise different keys.
\<close>

datatype json =
    JNull
  | JBool bool
  | JInt int
  | JStr string
  | JList "json list"
  | JDict "(string \<times> json) list"

text \<open>Truth value of a Python object, as \<^verbatim>\<open>if x:\<close> and \<^verbatim>\<open>x or y\<close> test it.\<close>

fun truthy :: "json \<Rightarrow> bool" where
  "truthy JNull = False"
| "truthy (JBool b) = b"
| "truthy (JInt n) = (n \<noteq> 0)"
| "truthy (JStr s) = (s \<noteq> [])"
| "truthy (JList xs) = (xs \<noteq> [])"
| "truthy (JDict kvs) = (kvs \<noteq> [])"

text \<open>\<^verbatim>\<open>d.get(k)\<close> and \<^verbatim>\<open>d.get(k, default)\<close> on a dict \<open>d\<close>.\<close>

definition dict_get :: "(string \<times> json) list \<Rightarrow> string \<Rightarrow> json" where
  "dict_get d k = (case map_of d k of None \<Rightarrow> JNull | Some v \<Rightarrow> v)"

definition dict_get_default :: "(string \<times> json) list \<Rightarrow> string \<Rightarrow> json \<Rightarrow> json" where
  "dict_get_default d k dflt = (case map_of d k of None \<Rightarrow> dflt | Some v \<Rightarrow> v)"

fun is_dict :: "json \<Rightarrow> bool" where
  "is_dict (JDict kvs) = True"
| "is_dict v = False"

text \<open>
  \<^verbatim>\<open>v.get(k)\<close> on a value known to be a dict (the job of a notify message); on any
  other value the model answers \<open>JNull\<close>, and every caller below checks \<open>is_dict\<close>
  first or builds the dict itself.
\<close>

fun job_get :: "json \<Rightarrow> string \<Rightarrow> json" where
  "job_get (JDict kvs) k = dict_get kvs k"
| "job_get v k = JNull"

text \<open>
  Python's \<^verbatim>\<open>==\<close> on these values: numbers are compared by value, with
  \<^verbatim>\<open>True == 1\<close> and \<^verbatim>\<open>False == 0\<close>; lists are compared element by element; two dicts
  are equal when they have the same keys with equal values, in any order.
\<close>

fun py_eq :: "json \<Rightarrow> json \<Rightarrow> bool" where
  "py_eq (JBool b) (JInt n) = ((if b then 1 else 0) = n)"
| "py_eq (JInt n) (JBool b) = (n = (if b then 1 else 0))"
| "py_eq (JList xs) (JList ys) = list_all2 py_eq xs ys"
| "py_eq (JDict kvs) (JDict kws) =
     (length kvs = length kws \<and>
      list_all (\<lambda>(k, v). case map_of kws k of None \<Rightarrow> False | Some w \<Rightarrow> py_eq v w) kvs)"
| "py_eq x y = (x = y)"

datatype py_error =
    TypeError
  | ValueError
  | KeyError
  | AttributeError
  | ConnectionError
  | OSError string

text \<open>
  \<^verbatim>\<open>int(x)\<close> on a JSON value. The conversion of a text, \<^verbatim>\<open>int(str)\<close>, is the
  interpreter's; it is the parameter \<open>int_of_str\<close>, \<open>None\<close> where it raises
  \<^verbatim>\<open>ValueError\<close>.
\<close>

fun py_int :: "(string \<Rightarrow> int option) \<Rightarrow> json \<Rightarrow> py_error + int" where
  "py_int int_of_str (JInt n) = Inr n"
| "py_int int_of_str (JBool b) = Inr (if b then 1 else 0)"
| "py_int int_of_str (JStr s) = (case int_of_str s of None \<Rightarrow> Inl ValueError | Some n \<Rightarrow> Inr n)"
| "py_int int_of_str v = Inl TypeError"

subsection \<open>The job state\<close>

text \<open>
  The dict \<open>job_state\<close> and the variable \<open>nonce_cursor\<close> of the session (lines 1678 to
  1689). \<open>JNull\<close> and \<open>None\<close> stand for Python's \<^verbatim>\<open>None\<close>.
\<close>

record job_state =
  js_job_id :: json
  js_blob_hex :: json
  js_blob_bytes :: "bytes option"
  js_difficulty :: "int option"
  js_height :: json
  js_target_64 :: "int option"
  js_target_256 :: "int option"
  js_target_cosmic32 :: "int option"
  js_version :: int

record mining_session =
  job_state :: job_state
  nonce_cursor :: int

definition initial_job_state :: job_state where
  "initial_job_state =
     \<lparr>js_job_id = JNull, js_blob_hex = JNull, js_blob_bytes = None, js_difficulty = None,
      js_height = JNull, js_target_64 = None, js_target_256 = None,
      js_target_cosmic32 = None, js_version = 0\<rparr>"

definition initial_session :: mining_session where
  "initial_session = \<lparr>job_state = initial_job_state, nonce_cursor = 0\<rparr>"

text \<open>
  \<^verbatim>\<open>bytes.fromhex(blob_hex)\<close> inside \<^verbatim>\<open>try ... except Exception: return\<close>: a blob
  that is not a text raises \<^verbatim>\<open>TypeError\<close>, a text that is not hexadecimal raises
  \<^verbatim>\<open>ValueError\<close>; both end the call. The decoding of a text is the interpreter's and is
  the parameter \<open>fromhex\<close>.
\<close>

fun blob_fromhex :: "(string \<Rightarrow> bytes option) \<Rightarrow> json \<Rightarrow> bytes option" where
  "blob_fromhex fromhex (JStr s) = fromhex s"
| "blob_fromhex fromhex v = None"

text \<open>
  The log line of \<^verbatim>\<open>_update_job_from_stratum\<close> (lines 1760 and 1763) formats
  \<^verbatim>\<open>job_id[:12]\<close>: a text and a list can be sliced, any other truthy id raises
  (\<^verbatim>\<open>TypeError\<close> for a number; for a dict \<^verbatim>\<open>TypeError\<close> up to Python 3.11).
\<close>

fun log_job_id :: "json \<Rightarrow> py_error option" where
  "log_job_id (JStr s) = None"
| "log_job_id (JList xs) = None"
| "log_job_id v = Some TypeError"

text \<open>
  \<^verbatim>\<open>_update_job_from_stratum\<close> (lines 1701 to 1763): the exception raised, if any, and
  the session. \<^verbatim>\<open>int(job.get("difficulty") or 1)\<close> raises before anything is written;
  the log line raises after the job is installed. A job that is not a dict has no
  \<^verbatim>\<open>get\<close>.
\<close>

definition update_job_from_stratum ::
  "(string \<Rightarrow> int option) \<Rightarrow> (string \<Rightarrow> bytes option) \<Rightarrow> Algorithm \<Rightarrow> json
     \<Rightarrow> mining_session \<Rightarrow> py_error option \<times> mining_session" where
  "update_job_from_stratum int_of_str fromhex algorithm job s =
     (if \<not> is_dict job then (Some AttributeError, s)
      else
        (let job_id = job_get job ''job_id'';
             blob_hex = job_get job ''blob'';
             d = job_get job ''difficulty''
         in case py_int int_of_str (if truthy d then d else JInt 1) of
              Inl e \<Rightarrow> (Some e, s)
            | Inr pool_difficulty \<Rightarrow>
                (let height = job_get job ''height'' in
                 if \<not> truthy job_id \<or> \<not> truthy blob_hex then (None, s)
                 else
                   (case blob_fromhex fromhex blob_hex of
                      None \<Rightarrow> (None, s)
                    | Some blob_bytes \<Rightarrow>
                        (case compute_targets algorithm pool_difficulty of
                           (target_64, target_256, target_cosmic32) \<Rightarrow>
                             if \<not> py_eq (js_job_id (job_state s)) job_id then
                               (log_job_id job_id,
                                \<lparr>job_state =
                                   \<lparr>js_job_id = job_id, js_blob_hex = blob_hex,
                                    js_blob_bytes = Some blob_bytes,
                                    js_difficulty = Some (max 1 pool_difficulty),
                                    js_height = height, js_target_64 = target_64,
                                    js_target_256 = target_256,
                                    js_target_cosmic32 = target_cosmic32,
                                    js_version = js_version (job_state s) + 1\<rparr>,
                                  nonce_cursor = 0\<rparr>)
                             else (None, s))))))"

text \<open>
  A sequence of update calls, as the control loop issues them. An exception leaves the
  loop, so the calls after it are not made: the result is the first exception, if any,
  and the session at that point.
\<close>

fun update_all ::
  "(string \<Rightarrow> int option) \<Rightarrow> (string \<Rightarrow> bytes option) \<Rightarrow> Algorithm \<Rightarrow> json list
     \<Rightarrow> mining_session \<Rightarrow> py_error option \<times> mining_session" where
  "update_all int_of_str fromhex algorithm [] s = (None, s)"
| "update_all int_of_str fromhex algorithm (job # jobs) s =
     (case update_job_from_stratum int_of_str fromhex algorithm job s of
        (Some e, s') \<Rightarrow> (Some e, s')
      | (None, s') \<Rightarrow> update_all int_of_str fromhex algorithm jobs s')"

subsection \<open>The Stratum client\<close>

datatype disconnect_reason =
    ClientDisconnect
  | SendFailed string
  | SocketError string
  | ListenerError py_error

datatype share_error = PoolError json | UnexpectedSubmitResult json

text \<open>
  The fields of \<^verbatim>\<open>StratumClient\<close> that the functions below read or write.
  \<open>socket_open\<close> is \<^verbatim>\<open>self.socket is not None\<close>; \<open>job_queue\<close> is the FIFO queue, oldest
  job first; \<open>wait_events\<close> holds the request ids a handshake call waits for. The two
  fields that only throttle log lines are left out.
\<close>

record stratum_client =
  worker_id :: string
  socket_open :: bool
  request_id :: int
  job_queue :: "json list"
  current_job :: json
  connected :: bool
  extranonce1 :: json
  extranonce2_size :: int
  shares_sent :: int
  shares_accepted :: int
  shares_rejected :: int
  last_share_error :: "share_error option"
  pending_submit_ids :: "int set"
  last_disconnect_reason :: "disconnect_reason option"
  wait_events :: "int set"
  wait_responses :: "int \<rightharpoonup> json"

text \<open>The client as \<^verbatim>\<open>__init__\<close> leaves it.\<close>

definition new_client :: "string \<Rightarrow> stratum_client" where
  "new_client w =
     \<lparr>worker_id = w, socket_open = False, request_id = 1, job_queue = [], current_job = JNull,
      connected = False, extranonce1 = JNull, extranonce2_size = 4, shares_sent = 0,
      shares_accepted = 0, shares_rejected = 0, last_share_error = None,
      pending_submit_ids = {}, last_disconnect_reason = None, wait_events = {},
      wait_responses = Map.empty\<rparr>"

subsection \<open>Formatting a share\<close>

definition hex_digit :: "nat \<Rightarrow> char" where
  "hex_digit d = ''0123456789abcdef'' ! d"

text \<open>The digits of \<^verbatim>\<open>hex(n)\<close> for \<open>n \<ge> 0\<close>: lowercase, no leading zero, \<open>0\<close> for zero.\<close>

function hex_digits :: "nat \<Rightarrow> string" where
  "hex_digits n = (if n < 16 then [hex_digit n] else hex_digits (n div 16) @ [hex_digit (n mod 16)])"
  by pat_completeness auto
termination
  by (relation "measure (\<lambda>n. n)") auto

definition py_hex :: "int \<Rightarrow> string" where
  "py_hex n = (if n < 0 then ''-0x'' @ hex_digits (nat (- n)) else ''0x'' @ hex_digits (nat n))"

text \<open>
  \<^verbatim>\<open>s.zfill(width)\<close>: zeros on the left up to \<open>width\<close> characters, after a leading sign
  if there is one; a text that is long enough is returned as it is.
\<close>

definition zfill :: "nat \<Rightarrow> string \<Rightarrow> string" where
  "zfill width s =
     (if width \<le> length s then s
      else
        (case s of
           [] \<Rightarrow> replicate width CHR ''0''
         | c # rest \<Rightarrow>
             if c = CHR ''+'' \<or> c = CHR ''-''
             then c # replicate (width - length s) CHR ''0'' @ rest
             else replicate (width - length s) CHR ''0'' @ s))"

text \<open>\<^verbatim>\<open>hex(nonce)[2:].zfill(8)\<close>, line 335.\<close>

definition nonce_hex :: "int \<Rightarrow> string" where
  "nonce_hex nonce = zfill 8 (drop 2 (py_hex nonce))"

text \<open>\<^verbatim>\<open>result_hash.hex()\<close>, line 336: two lowercase digits for each byte.\<close>

definition bytes_hex :: "bytes \<Rightarrow> string" where
  "bytes_hex bs = concat (map (\<lambda>b. [hex_digit (unat b div 16), hex_digit (unat b mod 16)]) bs)"

text \<open>
  Reading a hexadecimal numeral back, as the receiver of a share does: \<open>None\<close> for the
  empty text and for a text with a character that is not a hexadecimal digit.
\<close>

definition hex_digit_value :: "char \<Rightarrow> nat option" where
  "hex_digit_value c =
     (let n = (of_char c :: nat) in
      if 48 \<le> n \<and> n \<le> 57 then Some (n - 48)
      else if 97 \<le> n \<and> n \<le> 102 then Some (n - 87)
      else if 65 \<le> n \<and> n \<le> 70 then Some (n - 55)
      else None)"

fun parse_hex_from :: "nat \<Rightarrow> string \<Rightarrow> nat option" where
  "parse_hex_from acc [] = Some acc"
| "parse_hex_from acc (c # cs) =
     (case hex_digit_value c of None \<Rightarrow> None | Some d \<Rightarrow> parse_hex_from (16 * acc + d) cs)"

definition parse_hex :: "string \<Rightarrow> int option" where
  "parse_hex s = (if s = [] then None else map_option int (parse_hex_from 0 s))"

definition is_lower_hex :: "char \<Rightarrow> bool" where
  "is_lower_hex c = (c \<in> set ''0123456789abcdef'')"

subsection \<open>Sending\<close>

text \<open>
  \<^verbatim>\<open>_send_request\<close> (lines 382 to 394). What \<^verbatim>\<open>sendall\<close> does is the environment's
  answer \<open>send_outcome\<close>. The result is the exception raised, if any, and the client.
\<close>

datatype send_outcome = SendOk | SendOSError string

definition send_request :: "send_outcome \<Rightarrow> stratum_client \<Rightarrow> py_error option \<times> stratum_client" where
  "send_request outcome c =
     (if \<not> socket_open c then (Some ConnectionError, c)
      else
        (case outcome of
           SendOk \<Rightarrow> (None, c)
         | SendOSError e \<Rightarrow>
             (Some (OSError e),
              c\<lparr>last_disconnect_reason := Some (SendFailed e), connected := False\<rparr>)))"

text \<open>The request that \<^verbatim>\<open>submit_share\<close> builds (lines 343 to 353).\<close>

record submit_request =
  sr_id :: int
  sr_jsonrpc :: string
  sr_method :: string
  sr_worker :: string
  sr_job_id :: json
  sr_nonce :: string
  sr_result :: string

text \<open>
  \<^verbatim>\<open>submit_share\<close> (lines 330 to 359): the value returned, the request built and the
  client afterwards. Every exception of the body is caught and turns into \<open>False\<close>.
\<close>

definition submit_share ::
  "send_outcome \<Rightarrow> json \<Rightarrow> int \<Rightarrow> bytes \<Rightarrow> stratum_client
     \<Rightarrow> bool \<times> submit_request \<times> stratum_client" where
  "submit_share outcome job_id nonce result_hash c =
     (let nonce_hex = nonce_hex nonce;
          result_hex = bytes_hex result_hash;
          req_id = request_id c;
          c1 = c\<lparr>request_id := request_id c + 1,
                 pending_submit_ids := insert req_id (pending_submit_ids c),
                 shares_sent := shares_sent c + 1\<rparr>;
          request = \<lparr>sr_id = req_id, sr_jsonrpc = ''2.0'', sr_method = ''submit'',
                     sr_worker = worker_id c1,
                     sr_job_id = job_id, sr_nonce = nonce_hex, sr_result = result_hex\<rparr>
      in case send_request outcome c1 of
           (None, c2) \<Rightarrow> (True, request, c2)
         | (Some e, c2) \<Rightarrow> (False, request, c2))"

subsection \<open>Jobs pushed by the pool\<close>

text \<open>
  \<^verbatim>\<open>get_job\<close> (lines 361 to 380): the loop takes jobs from the queue until it is empty
  and keeps the last one taken.
\<close>

fun drain_latest :: "json \<Rightarrow> json list \<Rightarrow> json" where
  "drain_latest latest [] = latest"
| "drain_latest latest (j # queue) = drain_latest j queue"

definition get_job :: "stratum_client \<Rightarrow> json \<times> stratum_client" where
  "get_job c =
     (let latest = drain_latest JNull (job_queue c);
          c1 = c\<lparr>job_queue := []\<rparr>;
          c2 = (if latest \<noteq> JNull then c1\<lparr>current_job := latest\<rparr> else c1)
      in (current_job c2, c2))"

text \<open>
  The job of a \<^verbatim>\<open>mining.notify\<close> message (lines 468 to 487), from the value of
  \<^verbatim>\<open>params\<close> once it is known to be truthy: a job, no job (the format is refused and
  the handler returns), or the exception that \<^verbatim>\<open>params[0]\<close> raises.
\<close>

datatype notify_job = Job json | NoJob | Raises py_error

definition array_job :: "json list \<Rightarrow> json" where
  "array_job params =
     JDict [(''job_id'', params ! 0),
            (''blob'', params ! 1),
            (''seed_hash'', if 2 < length params then params ! 2 else JStr ''''),
            (''next_seed_hash'', if 3 < length params then params ! 3 else JStr ''''),
            (''height'', if 4 < length params then params ! 4 else JInt 0),
            (''difficulty'', if 5 < length params then params ! 5 else JInt 1),
            (''clean_jobs'', if 6 < length params then params ! 6 else JBool True)]"

fun parse_notify :: "json \<Rightarrow> notify_job" where
  "parse_notify (JList params) =
     (case params of
        [] \<Rightarrow> NoJob
      | p0 # rest \<Rightarrow>
          if is_dict p0 then Job p0
          else if 2 \<le> length params then Job (array_job params)
          else NoJob)"
| "parse_notify (JStr s) = NoJob"
| "parse_notify (JDict kvs) = Raises KeyError"
| "parse_notify v = Raises TypeError"

text \<open>
  The \<^verbatim>\<open>mining.notify\<close> branch of \<^verbatim>\<open>_handle_message\<close> (lines 466 to 503): a truthy
  \<^verbatim>\<open>clean_jobs\<close> empties the queue, then the job becomes the current job and is queued.
\<close>

definition handle_notify :: "json \<Rightarrow> stratum_client \<Rightarrow> py_error option \<times> stratum_client" where
  "handle_notify params c =
     (if \<not> truthy params then (None, c)
      else
        (case parse_notify params of
           Raises e \<Rightarrow> (Some e, c)
         | NoJob \<Rightarrow> (None, c)
         | Job job \<Rightarrow>
             (let c1 = (if truthy (job_get job ''clean_jobs'') then c\<lparr>job_queue := []\<rparr> else c)
              in (None, c1\<lparr>current_job := job, job_queue := job_queue c1 @ [job]\<rparr>))))"

text \<open>
  The \<^verbatim>\<open>mining.set_difficulty\<close> branch (lines 505 to 508) only formats a log line, but
  the line reads \<^verbatim>\<open>params[0]\<close>, which raises on a dict and on a number.
\<close>

fun handle_set_difficulty :: "json \<Rightarrow> py_error option" where
  "handle_set_difficulty (JDict kvs) = (if kvs = [] then None else Some KeyError)"
| "handle_set_difficulty (JInt n) = (if n = 0 then None else Some TypeError)"
| "handle_set_difficulty (JBool b) = (if b then Some TypeError else None)"
| "handle_set_difficulty v = None"

text \<open>\<^verbatim>\<open>isinstance(x, int)\<close> and the number it is; \<^verbatim>\<open>bool\<close> is a subclass of \<^verbatim>\<open>int\<close>.\<close>

fun json_int :: "json \<Rightarrow> int option" where
  "json_int (JInt n) = Some n"
| "json_int (JBool b) = Some (if b then 1 else 0)"
| "json_int v = None"

fun unhashable :: "json \<Rightarrow> bool" where
  "unhashable (JList xs) = True"
| "unhashable (JDict kvs) = True"
| "unhashable v = False"

text \<open>
  The last branch of \<^verbatim>\<open>_handle_message\<close> (lines 510 to 566): the answer to a request.
  It wakes a handshake call that waits for the id, settles a pending submit, and otherwise
  reads the extranonce of a subscribe answer.
\<close>

definition handle_response ::
  "(string \<Rightarrow> int option) \<Rightarrow> (string \<times> json) list \<Rightarrow> stratum_client
     \<Rightarrow> py_error option \<times> stratum_client" where
  "handle_response int_of_str message c =
     (let req_id = dict_get message ''id'';
          c1 = (case json_int req_id of
                  None \<Rightarrow> c
                | Some n \<Rightarrow>
                    if n \<in> wait_events c
                    then c\<lparr>wait_responses := (wait_responses c)(n \<mapsto> JDict message)\<rparr>
                    else c)
      in if unhashable req_id then (Some TypeError, c1)
         else
           (case (case json_int req_id of
                    None \<Rightarrow> None
                  | Some n \<Rightarrow> if n \<in> pending_submit_ids c1 then Some n else None) of
              Some n \<Rightarrow>
                (let c2 = c1\<lparr>pending_submit_ids := pending_submit_ids c1 - {n}\<rparr>;
                     err = dict_get message ''error''
                 in if truthy err
                    then (None, c2\<lparr>shares_rejected := shares_rejected c2 + 1,
                                    last_share_error := Some (PoolError err)\<rparr>)
                    else
                      (let result = dict_get message ''result'';
                           accepted = (case result of
                                         JDict r \<Rightarrow> dict_get r ''status'' = JStr ''OK''
                                       | JBool b \<Rightarrow> b
                                       | _ \<Rightarrow> False)
                       in if accepted
                          then (None, c2\<lparr>shares_accepted := shares_accepted c2 + 1\<rparr>)
                          else (None, c2\<lparr>shares_rejected := shares_rejected c2 + 1,
                                          last_share_error :=
                                            Some (UnexpectedSubmitResult result)\<rparr>)))
            | None \<Rightarrow>
                (if map_of message ''result'' = None then (None, c1)
                 else
                   (case dict_get message ''result'' of
                      JList result \<Rightarrow>
                        if 2 \<le> length result then
                          (let c2 = c1\<lparr>extranonce1 := result ! 1\<rparr>
                           in if 3 \<le> length result then
                                (case py_int int_of_str (result ! 2) of
                                   Inl e \<Rightarrow> (Some e, c2)
                                 | Inr n \<Rightarrow> (None, c2\<lparr>extranonce2_size := n\<rparr>))
                              else (None, c2))
                        else (None, c1)
                    | _ \<Rightarrow> (None, c1)))))"

text \<open>
  \<^verbatim>\<open>_handle_message\<close> (lines 442 to 566): the exception it raises, if any, and the
  client. A message that is not an object has no \<^verbatim>\<open>get\<close>.
\<close>

fun handle_message ::
  "(string \<Rightarrow> int option) \<Rightarrow> json \<Rightarrow> stratum_client \<Rightarrow> py_error option \<times> stratum_client" where
  "handle_message int_of_str (JDict message) c =
     (let method = dict_get message ''method'' in
      if method = JStr ''block_found'' then (None, c)
      else if method = JStr ''mining.notify''
        then handle_notify (dict_get_default message ''params'' (JList [])) c
      else if method = JStr ''mining.set_difficulty''
        then (handle_set_difficulty (dict_get_default message ''params'' (JList [])), c)
      else handle_response int_of_str message c)"
| "handle_message int_of_str v c = (Some AttributeError, c)"

subsection \<open>The listener\<close>

text \<open>
  The inner loop of \<^verbatim>\<open>_listen_loop\<close> (lines 414 to 421) cuts the buffer at every
  newline: the complete lines, in order, and the rest that stays in the buffer.
\<close>

fun split_buffer :: "string \<Rightarrow> string \<Rightarrow> string list \<times> string" where
  "split_buffer cur [] = ([], cur)"
| "split_buffer cur (ch # cs) =
     (if ch = CHR 0x0A
      then (case split_buffer [] cs of (ls, rest) \<Rightarrow> (cur # ls, rest))
      else split_buffer (cur @ [ch]) cs)"

text \<open>
  Each line goes through \<^verbatim>\<open>json.loads\<close>, the parameter \<open>loads\<close> (\<open>None\<close> where it
  raises \<^verbatim>\<open>JSONDecodeError\<close>, which drops the line), and then through the handler; an
  exception of the handler ends the processing.
\<close>

fun handle_lines ::
  "(string \<Rightarrow> json option) \<Rightarrow> (string \<Rightarrow> int option) \<Rightarrow> string list \<Rightarrow> stratum_client
     \<Rightarrow> py_error option \<times> stratum_client" where
  "handle_lines loads int_of_str [] c = (None, c)"
| "handle_lines loads int_of_str (line # lines) c =
     (case loads line of
        None \<Rightarrow> handle_lines loads int_of_str lines c
      | Some message \<Rightarrow>
          (case handle_message int_of_str message c of
             (Some e, c') \<Rightarrow> (Some e, c')
           | (None, c') \<Rightarrow> handle_lines loads int_of_str lines c'))"

text \<open>
  What one pass of the listener meets: the socket is gone or closed before the read
  (\<open>SocketInvalid\<close>), the read returns text (the empty text is the zero-length read),
  returns bytes that are not UTF-8, times out, or raises. Another thread may have cleared
  \<open>connected\<close> while the listener was blocked in the read, as \<^verbatim>\<open>disconnect\<close> and
  \<^verbatim>\<open>_send_request\<close> do; the first component of an event is the reason that thread
  recorded, if it did.
\<close>

datatype recv_outcome =
    SocketInvalid
  | RecvText string
  | RecvUndecodable
  | RecvTimeout
  | RecvOSError string
  | RecvOtherError py_error

datatype loop_end = Exited | Waiting

text \<open>
  \<^verbatim>\<open>_listen_loop\<close> (lines 396 to 440) against the list of events the socket produces.
  \<open>Exited\<close>: the loop has terminated. \<open>Waiting\<close>: the events are used up and the thread
  is still in the loop.
\<close>

fun listen_loop ::
  "(string \<Rightarrow> json option) \<Rightarrow> (string \<Rightarrow> int option)
     \<Rightarrow> (disconnect_reason option \<times> recv_outcome) list \<Rightarrow> string \<Rightarrow> stratum_client
     \<Rightarrow> loop_end \<times> stratum_client" where
  "listen_loop loads int_of_str [] buffer c = (if connected c then (Waiting, c) else (Exited, c))"
| "listen_loop loads int_of_str ((interference, outcome) # events) buffer c =
     (if \<not> connected c then (Exited, c)
      else if outcome = SocketInvalid then (Exited, c)
      else
        (let c0 = (case interference of
                     None \<Rightarrow> c
                   | Some r \<Rightarrow> c\<lparr>connected := False, last_disconnect_reason := Some r\<rparr>)
         in case outcome of
              SocketInvalid \<Rightarrow> (Exited, c0)
            | RecvText data \<Rightarrow>
                if data = [] then (Exited, c0)
                else
                  (case split_buffer [] (buffer @ data) of
                     (lines, rest) \<Rightarrow>
                       (case handle_lines loads int_of_str lines c0 of
                          (Some e, c1) \<Rightarrow>
                            (Exited, c1\<lparr>last_disconnect_reason := Some (ListenerError e),
                                         connected := False\<rparr>)
                        | (None, c1) \<Rightarrow> listen_loop loads int_of_str events rest c1))
            | RecvUndecodable \<Rightarrow>
                (Exited, c0\<lparr>last_disconnect_reason := Some (ListenerError ValueError),
                             connected := False\<rparr>)
            | RecvTimeout \<Rightarrow> listen_loop loads int_of_str events buffer c0
            | RecvOSError e \<Rightarrow>
                if \<not> connected c0 then (Exited, c0)
                else (Exited, c0\<lparr>last_disconnect_reason := Some (SocketError e),
                                  connected := False\<rparr>)
            | RecvOtherError e \<Rightarrow>
                (Exited, c0\<lparr>last_disconnect_reason := Some (ListenerError e),
                             connected := False\<rparr>)))"

subsection \<open>Test vectors\<close>




definition digest_00 :: bytes where
  "digest_00 = replicate 32 0"

subsection \<open>When a job is installed\<close>

text \<open>
  The guards of \<^verbatim>\<open>_update_job_from_stratum\<close> together: the job is a dict whose
  difficulty converts, it has an id and a blob, the blob decodes, and the id differs from
  the id of the current job.
\<close>

definition installs_new_job ::
  "(string \<Rightarrow> int option) \<Rightarrow> (string \<Rightarrow> bytes option) \<Rightarrow> json \<Rightarrow> mining_session \<Rightarrow> bool" where
  "installs_new_job int_of_str fromhex job s =
     (is_dict job
      \<and> \<not> isl (py_int int_of_str
                 (if truthy (job_get job ''difficulty'') then job_get job ''difficulty''
                  else JInt 1))
      \<and> truthy (job_get job ''job_id'') \<and> truthy (job_get job ''blob'')
      \<and> blob_fromhex fromhex (job_get job ''blob'') \<noteq> None
      \<and> \<not> py_eq (js_job_id (job_state s)) (job_get job ''job_id''))"

subsection \<open>Instances of the interpreter's functions\<close>

text \<open>
  For the examples the three parameters are instantiated: \<open>fromhex_pairs\<close> decodes a text
  made of pairs of hexadecimal digits and \<open>int_of_decimal\<close> reads a text made of decimal
  digits, as \<^verbatim>\<open>bytes.fromhex\<close> and \<^verbatim>\<open>int\<close> do on such texts; \<open>loads_nothing\<close> refuses
  every line.
\<close>

fun fromhex_pairs :: "string \<Rightarrow> bytes option" where
  "fromhex_pairs [] = Some []"
| "fromhex_pairs [c] = None"
| "fromhex_pairs (c1 # c2 # cs) =
     (case hex_digit_value c1 of
        None \<Rightarrow> None
      | Some a \<Rightarrow>
          (case hex_digit_value c2 of
             None \<Rightarrow> None
           | Some b \<Rightarrow>
               (case fromhex_pairs cs of
                  None \<Rightarrow> None
                | Some bs \<Rightarrow> Some (of_nat (16 * a + b) # bs))))"

fun decimal_from :: "nat \<Rightarrow> string \<Rightarrow> nat option" where
  "decimal_from acc [] = Some acc"
| "decimal_from acc (c # cs) =
     (let n = (of_char c :: nat) in
      if 48 \<le> n \<and> n \<le> 57 then decimal_from (10 * acc + (n - 48)) cs else None)"

definition int_of_decimal :: "string \<Rightarrow> int option" where
  "int_of_decimal s = (if s = [] then None else map_option int (decimal_from 0 s))"

definition loads_nothing :: "string \<Rightarrow> json option" where
  "loads_nothing line = None"

subsection \<open>Example jobs, messages and clients\<close>

definition job_a :: json where
  "job_a = JDict [(''job_id'', JStr ''a''), (''blob'', JStr ''00ff''), (''height'', JInt 7),
                  (''difficulty'', JInt 2), (''clean_jobs'', JBool False)]"

definition job_b :: json where
  "job_b = JDict [(''job_id'', JStr ''b''), (''blob'', JStr ''01fe''), (''height'', JInt 8),
                  (''difficulty'', JInt 2), (''clean_jobs'', JBool True)]"



definition params_short :: "json list" where
  "params_short = [JStr ''c'', JStr ''02fd'']"

definition notify :: "json list \<Rightarrow> (string \<times> json) list" where
  "notify params = [(''method'', JStr ''mining.notify''), (''params'', JList params)]"

definition live_client :: stratum_client where
  "live_client = (new_client ''worker'')\<lparr>socket_open := True, connected := True\<rparr>"

text \<open>The session after \<open>job_a\<close> is installed on RandomX, and after \<open>job_b\<close> follows.\<close>

definition session_a :: mining_session where
  "session_a =
     \<lparr>job_state =
        \<lparr>js_job_id = JStr ''a'', js_blob_hex = JStr ''00ff'', js_blob_bytes = Some [0, 255],
         js_difficulty = Some 2, js_height = JInt 7,
         js_target_64 = Some 0x7FFFFFFFFFFFFFFF, js_target_256 = None,
         js_target_cosmic32 = None, js_version = 1\<rparr>,
      nonce_cursor = 0\<rparr>"

definition session_ab :: mining_session where
  "session_ab =
     \<lparr>job_state =
        \<lparr>js_job_id = JStr ''b'', js_blob_hex = JStr ''01fe'', js_blob_bytes = Some [1, 254],
         js_difficulty = Some 2, js_height = JInt 8,
         js_target_64 = Some 0x7FFFFFFFFFFFFFFF, js_target_256 = None,
         js_target_cosmic32 = None, js_version = 2\<rparr>,
      nonce_cursor = 0\<rparr>"

subsection \<open>From the queue to the workers\<close>




subsection \<open>Byte order lemmas\<close>







lemma from_bytes_little_nonneg: "0 \<le> from_bytes_little bs"
  by (induction bs) auto




subsection \<open>Targets and acceptance\<close>







subsection \<open>Nonce ranges\<close>

lemma alloc_all_Cons:
  "alloc_all c (k # counts) = (c # fst (alloc_all (c + k) counts), snd (alloc_all (c + k) counts))"
  by (simp add: alloc_nonces_def case_prod_beta)

lemma alloc_all_length: "length (fst (alloc_all c counts)) = length counts"
proof (induction counts arbitrary: c)
  case Nil
  show ?case by simp
next
  case (Cons k counts)
  show ?case unfolding alloc_all_Cons by (simp add: Cons.IH)
qed

lemma alloc_all_final: "snd (alloc_all c counts) = c + sum_list counts"
proof (induction counts arbitrary: c)
  case Nil
  show ?case by simp
next
  case (Cons k counts)
  show ?case unfolding alloc_all_Cons by (simp add: Cons.IH)
qed

lemma alloc_all_start:
  "i < length counts \<Longrightarrow> fst (alloc_all c counts) ! i = c + sum_list (take i counts)"
proof (induction counts arbitrary: c i)
  case Nil
  then show ?case by simp
next
  case (Cons k counts)
  show ?case
  proof (cases i)
    case 0
    then show ?thesis unfolding alloc_all_Cons by simp
  next
    case (Suc j)
    with Cons.prems have "j < length counts" by simp
    from Cons.IH [OF this, of "c + k"] Suc show ?thesis
      unfolding alloc_all_Cons by simp
  qed
qed

lemma sum_list_take_Suc:
  "i < length (counts :: int list) \<Longrightarrow> sum_list (take (Suc i) counts) = sum_list (take i counts) + counts ! i"
  by (simp add: take_Suc_conv_app_nth)

lemma sum_list_take_mono:
  assumes "\<forall>k \<in> set counts. (0::int) \<le> k" and "i \<le> j"
  shows "sum_list (take i counts) \<le> sum_list (take j counts)"
proof -
  have "take j counts = take i counts @ take (j - i) (drop i counts)"
    using assms(2) by (metis le_add_diff_inverse take_add)
  moreover have "0 \<le> sum_list (take (j - i) (drop i counts))"
    using assms(1) by (intro sum_list_nonneg) (auto dest!: in_set_takeD in_set_dropD)
  ultimately show ?thesis by simp
qed

lemma ranges_union_prefix:
  assumes "\<forall>k \<in> set counts. (0::int) \<le> k" and "n \<le> length counts"
  shows "(\<Union>i<n. nonce_range (c + sum_list (take i counts)) (counts ! i))
         = {c ..< c + sum_list (take n counts)}"
  using assms(2)
proof (induction n)
  case 0
  show ?case by simp
next
  case (Suc n)
  then have n: "n < length counts" by simp
  have ge: "0 \<le> sum_list (take n counts)"
    using assms(1) by (intro sum_list_nonneg) (auto dest!: in_set_takeD)
  have ck: "0 \<le> counts ! n" using assms(1) n by simp
  have "(\<Union>i<Suc n. nonce_range (c + sum_list (take i counts)) (counts ! i))
        = {c ..< c + sum_list (take n counts)}
          \<union> nonce_range (c + sum_list (take n counts)) (counts ! n)"
    using Suc.IH n by (simp add: lessThan_Suc Un_commute)
  also have "\<dots> = {c ..< c + sum_list (take (Suc n) counts)}"
    using ge ck by (auto simp: nonce_range_def sum_list_take_Suc [OF n])
  finally show ?case .
qed

text \<open>
  C4. For every sequence of allocations \<open>allocate(c\<^sub>1), ..., allocate(c\<^sub>n)\<close> with counts
  that are not negative, starting from the cursor 0: the start of call \<open>i\<close> is the cursor
  that the calls before it left, the ranges \<open>[start\<^sub>i, start\<^sub>i + c\<^sub>i)\<close> are pairwise disjoint,
  and their union is the prefix \<open>[0, c\<^sub>1 + ... + c\<^sub>n)\<close>.
\<close>

theorem alloc_nonces_disjoint_prefix:
  assumes "\<forall>k \<in> set counts. 0 \<le> k"
  shows "length (fst (alloc_all 0 counts)) = length counts
       \<and> (\<forall>i < length counts.
             fst (alloc_all 0 counts) ! i = snd (alloc_all 0 (take i counts)))
       \<and> (\<forall>i j. i < j \<and> j < length counts \<longrightarrow>
             nonce_range (fst (alloc_all 0 counts) ! i) (counts ! i)
             \<inter> nonce_range (fst (alloc_all 0 counts) ! j) (counts ! j) = {})
       \<and> (\<Union>i < length counts. nonce_range (fst (alloc_all 0 counts) ! i) (counts ! i))
           = {0 ..< sum_list counts}
       \<and> snd (alloc_all 0 counts) = sum_list counts"
proof (intro conjI allI impI)
  show "length (fst (alloc_all 0 counts)) = length counts"
    by (rule alloc_all_length)
next
  fix i assume "i < length counts"
  then show "fst (alloc_all 0 counts) ! i = snd (alloc_all 0 (take i counts))"
    by (simp add: alloc_all_start alloc_all_final)
next
  fix i j assume ij: "i < j \<and> j < length counts"
  then have i: "i < length counts" and j: "j < length counts" by simp_all
  have "sum_list (take (Suc i) counts) \<le> sum_list (take j counts)"
    using assms ij by (intro sum_list_take_mono) simp_all
  then have "sum_list (take i counts) + counts ! i \<le> sum_list (take j counts)"
    by (simp add: sum_list_take_Suc [OF i])
  then show "nonce_range (fst (alloc_all 0 counts) ! i) (counts ! i)
             \<inter> nonce_range (fst (alloc_all 0 counts) ! j) (counts ! j) = {}"
    by (auto simp: alloc_all_start [OF i] alloc_all_start [OF j] nonce_range_def)
next
  have "(\<Union>i < length counts. nonce_range (fst (alloc_all 0 counts) ! i) (counts ! i))
        = (\<Union>i < length counts. nonce_range (0 + sum_list (take i counts)) (counts ! i))"
    by (simp add: alloc_all_start)
  also have "\<dots> = {0 ..< 0 + sum_list (take (length counts) counts)}"
    by (rule ranges_union_prefix [OF assms]) simp
  finally show "(\<Union>i < length counts. nonce_range (fst (alloc_all 0 counts) ! i) (counts ! i))
        = {0 ..< sum_list counts}"
    by simp
next
  show "snd (alloc_all 0 counts) = sum_list counts"
    by (simp add: alloc_all_final)
qed

theorem alloc_nonces_disjoint_prefix_witness:
  "(0::int) \<le> 1000 \<and> (0::int) \<le> 50000
   \<and> alloc_all 0 [1000, 50000, 1000] = ([0, 1000, 51000], 52000)
   \<and> nonce_range 0 1000 \<inter> nonce_range 1000 50000 = {}
   \<and> nonce_range 0 1000 \<inter> nonce_range 51000 1000 = {}
   \<and> nonce_range 1000 50000 \<inter> nonce_range 51000 1000 = {}
   \<and> (\<Union>i < length [1000, 50000, 1000 :: int].
         nonce_range (fst (alloc_all 0 [1000, 50000, 1000]) ! i) ([1000, 50000, 1000] ! i))
       = {0 ..< 52000}"
proof -
  have h: "\<forall>k \<in> set [1000, 50000, 1000 :: int]. 0 \<le> k" by simp
  have e: "alloc_all 0 [1000, 50000, 1000] = ([0, 1000, 51000], 52000)"
    by (simp add: alloc_nonces_def)
  note t = alloc_nonces_disjoint_prefix [OF h]
  have d01: "nonce_range 0 1000 \<inter> nonce_range 1000 50000 = {}"
    using t [THEN conjunct2, THEN conjunct2, THEN conjunct1, rule_format, of 0 1] e by simp
  have d02: "nonce_range 0 1000 \<inter> nonce_range 51000 1000 = {}"
    using t [THEN conjunct2, THEN conjunct2, THEN conjunct1, rule_format, of 0 2] e by simp
  have d12: "nonce_range 1000 50000 \<inter> nonce_range 51000 1000 = {}"
    using t [THEN conjunct2, THEN conjunct2, THEN conjunct1, rule_format, of 1 2] e by simp
  have u: "(\<Union>i < length [1000, 50000, 1000 :: int].
         nonce_range (fst (alloc_all 0 [1000, 50000, 1000]) ! i) ([1000, 50000, 1000] ! i))
       = {0 ..< 52000}"
    using t [THEN conjunct2, THEN conjunct2, THEN conjunct2, THEN conjunct1] by simp
  have p: "(0::int) \<le> 1000 \<and> (0::int) \<le> 50000" by simp
  show ?thesis using p e d01 d02 d12 u by blast
qed

subsection \<open>Job versions\<close>

lemma update_job_cases:
  "snd (update_job_from_stratum int_of_str fromhex algorithm job s)
   = (if installs_new_job int_of_str fromhex job s
      then \<lparr>job_state =
              \<lparr>js_job_id = job_get job ''job_id'', js_blob_hex = job_get job ''blob'',
               js_blob_bytes = blob_fromhex fromhex (job_get job ''blob''),
               js_difficulty = js_difficulty (job_state
                  (snd (update_job_from_stratum int_of_str fromhex algorithm job s))),
               js_height = job_get job ''height'',
               js_target_64 = js_target_64 (job_state
                  (snd (update_job_from_stratum int_of_str fromhex algorithm job s))),
               js_target_256 = js_target_256 (job_state
                  (snd (update_job_from_stratum int_of_str fromhex algorithm job s))),
               js_target_cosmic32 = js_target_cosmic32 (job_state
                  (snd (update_job_from_stratum int_of_str fromhex algorithm job s))),
               js_version = js_version (job_state s) + 1\<rparr>,
            nonce_cursor = 0\<rparr>
      else s)"
  unfolding update_job_from_stratum_def installs_new_job_def Let_def
  by (auto split: sum.splits option.splits prod.splits)

lemma update_job_step:
  assumes "update_job_from_stratum int_of_str fromhex algorithm job s = (e, s')"
  shows "if installs_new_job int_of_str fromhex job s
         then js_version (job_state s') = js_version (job_state s) + 1
              \<and> nonce_cursor s' = 0
              \<and> js_job_id (job_state s') = job_get job ''job_id''
         else s' = s"
proof -
  have s': "s' = snd (update_job_from_stratum int_of_str fromhex algorithm job s)"
    using assms by simp
  show ?thesis
  proof (cases "installs_new_job int_of_str fromhex job s")
    case True
    then show ?thesis
      unfolding s' by (subst (1 2 3) update_job_cases) simp
  next
    case False
    then show ?thesis
      unfolding s' by (subst update_job_cases) simp
  qed
qed

lemma update_job_version_mono:
  "js_version (job_state s)
   \<le> js_version (job_state (snd (update_job_from_stratum int_of_str fromhex algorithm job s)))"
proof -
  obtain e s' where 1: "update_job_from_stratum int_of_str fromhex algorithm job s = (e, s')"
    by (cases "update_job_from_stratum int_of_str fromhex algorithm job s") auto
  from update_job_step [OF 1] show ?thesis
    unfolding 1 by (auto split: if_splits)
qed

lemma update_all_version_mono:
  "js_version (job_state s)
   \<le> js_version (job_state (snd (update_all int_of_str fromhex algorithm jobs s)))"
proof (induction jobs arbitrary: s)
  case Nil
  show ?case by simp
next
  case (Cons job jobs)
  obtain e s1 where 1: "update_job_from_stratum int_of_str fromhex algorithm job s = (e, s1)"
    by (cases "update_job_from_stratum int_of_str fromhex algorithm job s") auto
  have m: "js_version (job_state s) \<le> js_version (job_state s1)"
    using update_job_version_mono [of s int_of_str fromhex algorithm job] 1 by simp
  show ?case
  proof (cases e)
    case None
    then show ?thesis
      using m Cons.IH [of s1] 1 by simp
  next
    case (Some err)
    then show ?thesis
      using m 1 by simp
  qed
qed

lemma update_all_append:
  "update_all int_of_str fromhex algorithm (jobs @ [job]) s =
     (case update_all int_of_str fromhex algorithm jobs s of
        (Some e, s1) \<Rightarrow> (Some e, s1)
      | (None, s1) \<Rightarrow> update_job_from_stratum int_of_str fromhex algorithm job s1)"
proof (induction jobs arbitrary: s)
  case Nil
  show ?case by (auto split: prod.splits option.splits)
next
  case (Cons j jobs)
  show ?case
    by (auto simp: Cons.IH split: prod.splits option.splits)
qed

text \<open>
  C5, as the code has it. Take any sequence of update calls that all returned, and one
  more call. The version before that call is at least the initial one, and the call either
  leaves the session as it is or adds exactly one to the version and sets the nonce cursor
  to 0; it does the latter exactly when the job is a dict whose difficulty converts, with
  an id and a blob that decodes, and its id differs from the id of the current job.
\<close>

theorem update_job_version_steps:
  assumes "update_all int_of_str fromhex algorithm jobs s = (None, s1)"
    and "update_job_from_stratum int_of_str fromhex algorithm job s1 = (e, s')"
  shows "update_all int_of_str fromhex algorithm (jobs @ [job]) s = (e, s')
       \<and> js_version (job_state s) \<le> js_version (job_state s1)
       \<and> js_version (job_state s1) \<le> js_version (job_state s')
       \<and> (if installs_new_job int_of_str fromhex job s1
           then js_version (job_state s') = js_version (job_state s1) + 1
                \<and> nonce_cursor s' = 0
                \<and> js_job_id (job_state s') = job_get job ''job_id''
           else s' = s1)"
proof -
  have 1: "update_all int_of_str fromhex algorithm (jobs @ [job]) s = (e, s')"
    by (simp add: update_all_append assms)
  have 2: "js_version (job_state s) \<le> js_version (job_state s1)"
    using update_all_version_mono [of s int_of_str fromhex algorithm jobs] assms(1) by simp
  have 3: "js_version (job_state s1) \<le> js_version (job_state s')"
    using update_job_version_mono [of s1 int_of_str fromhex algorithm job] assms(2) by simp
  from 1 2 3 update_job_step [OF assms(2)] show ?thesis by blast
qed

lemma update_job_a:
  "update_job_from_stratum int_of_decimal fromhex_pairs RANDOMX job_a s
   = (if py_eq (js_job_id (job_state s)) (JStr ''a'') then (None, s)
      else (None, session_a\<lparr>job_state :=
        (job_state session_a)\<lparr>js_version := js_version (job_state s) + 1\<rparr>\<rparr>))"
  by (simp add: update_job_from_stratum_def job_a_def session_a_def
      dict_get_def compute_targets_def max_target_64_def hex_digit_value_def)

lemma update_job_b:
  "update_job_from_stratum int_of_decimal fromhex_pairs RANDOMX job_b s
   = (if py_eq (js_job_id (job_state s)) (JStr ''b'') then (None, s)
      else (None, session_ab\<lparr>job_state :=
        (job_state session_ab)\<lparr>js_version := js_version (job_state s) + 1\<rparr>\<rparr>))"
  by (simp add: update_job_from_stratum_def job_b_def session_ab_def
      dict_get_def compute_targets_def max_target_64_def hex_digit_value_def)

lemma update_all_a:
  "update_all int_of_decimal fromhex_pairs RANDOMX [job_a] initial_session = (None, session_a)"
  by (simp add: update_job_a initial_session_def initial_job_state_def session_a_def)

lemma update_all_a_a:
  "update_all int_of_decimal fromhex_pairs RANDOMX [job_a, job_a] initial_session
   = (None, session_a)"
  by (simp add: update_job_a initial_session_def initial_job_state_def session_a_def)

lemma update_job_b_after_a:
  "update_job_from_stratum int_of_decimal fromhex_pairs RANDOMX job_b session_a = (None, session_ab)"
  by (simp add: update_job_b session_a_def session_ab_def)

theorem update_job_version_steps_witness:
  "update_all int_of_decimal fromhex_pairs RANDOMX [job_a] initial_session = (None, session_a)
   \<and> update_job_from_stratum int_of_decimal fromhex_pairs RANDOMX job_b session_a
       = (None, session_ab)
   \<and> update_all int_of_decimal fromhex_pairs RANDOMX ([job_a] @ [job_b]) initial_session
       = (None, session_ab)
   \<and> installs_new_job int_of_decimal fromhex_pairs job_b session_a
   \<and> js_version (job_state session_a) = 1
   \<and> js_version (job_state session_ab) = 2
   \<and> nonce_cursor session_ab = 0"
proof -
  note t = update_job_version_steps [OF update_all_a update_job_b_after_a]
  have i: "installs_new_job int_of_decimal fromhex_pairs job_b session_a"
    by (simp add: installs_new_job_def job_b_def session_a_def dict_get_def hex_digit_value_def
        int_of_decimal_def)
  have v: "js_version (job_state session_a) = 1"
    by (simp add: session_a_def)
  from t i have "js_version (job_state session_ab) = js_version (job_state session_a) + 1
        \<and> nonce_cursor session_ab = 0"
    by simp
  then have w: "js_version (job_state session_ab) = 2 \<and> nonce_cursor session_ab = 0"
    unfolding v by simp
  have a: "update_all int_of_decimal fromhex_pairs RANDOMX ([job_a] @ [job_b]) initial_session
       = (None, session_ab)"
    using t by blast
  show ?thesis
    using i v w a update_all_a update_job_b_after_a by blast
qed

text \<open>
  The claim as it is written fails: a second update call with the job that is already
  current returns and leaves the version at 1.
\<close>

theorem version_not_strictly_increasing:
  "update_all int_of_decimal fromhex_pairs RANDOMX [job_a] initial_session = (None, session_a)
   \<and> update_all int_of_decimal fromhex_pairs RANDOMX [job_a, job_a] initial_session
       = (None, session_a)
   \<and> js_version (job_state session_a) = 1"
  unfolding update_all_a update_all_a_a by (simp add: session_a_def)

subsection \<open>The job queue\<close>

lemma drain_latest_last: "drain_latest latest queue = (if queue = [] then latest else last queue)"
  by (induction queue arbitrary: latest) auto


lemma handle_notify_Job:
  assumes "truthy params" and "parse_notify params = Job job"
  shows "handle_notify params c
         = (None, c\<lparr>current_job := job,
                     job_queue := (if truthy (job_get job ''clean_jobs'') then [] else job_queue c) @ [job]\<rparr>)"
  using assms by (simp add: handle_notify_def Let_def)


lemma get_job_queue_last:
  assumes "job_queue c \<noteq> []" and "last (job_queue c) \<noteq> JNull"
  shows "get_job c = (last (job_queue c), c\<lparr>job_queue := [], current_job := last (job_queue c)\<rparr>)"
  using assms by (simp add: get_job_def drain_latest_last Let_def)

lemma get_job_empty_queue:
  assumes "job_queue c = []"
  shows "get_job c = (current_job c, c)"
  using assms by (simp add: get_job_def Let_def)






lemma notify_params: "dict_get (notify params) ''method'' = JStr ''mining.notify''
    \<and> dict_get_default (notify params) ''params'' (JList []) = JList params"
  by (simp add: notify_def dict_get_def dict_get_default_def)





text \<open>
  C9. A \<^verbatim>\<open>mining.notify\<close> message whose \<^verbatim>\<open>params\<close> is an array of at least 2 and fewer
  than 7 elements, the first of which is not an object, yields the job with the missing
  fields filled in: seed hashes empty, height 0, difficulty 1 and \<^verbatim>\<open>clean_jobs\<close> true.
  Since \<^verbatim>\<open>clean_jobs\<close> is missing from every such array, the handler drops all queued
  jobs: afterwards the queue holds the new job alone.
\<close>

theorem short_array_notify_defaults:
  assumes "2 \<le> length params" and "length params < 7" and "\<not> is_dict (params ! 0)"
    and "dict_get message ''method'' = JStr ''mining.notify''"
    and "dict_get_default message ''params'' (JList []) = JList params"
  shows "parse_notify (JList params) = Job (array_job params)
       \<and> job_get (array_job params) ''job_id'' = params ! 0
       \<and> job_get (array_job params) ''blob'' = params ! 1
       \<and> job_get (array_job params) ''seed_hash''
           = (if 2 < length params then params ! 2 else JStr '''')
       \<and> job_get (array_job params) ''next_seed_hash''
           = (if 3 < length params then params ! 3 else JStr '''')
       \<and> job_get (array_job params) ''height''
           = (if 4 < length params then params ! 4 else JInt 0)
       \<and> job_get (array_job params) ''difficulty''
           = (if 5 < length params then params ! 5 else JInt 1)
       \<and> job_get (array_job params) ''clean_jobs'' = JBool True
       \<and> handle_message int_of_str (JDict message) c
           = (None, c\<lparr>current_job := array_job params, job_queue := [array_job params]\<rparr>)"
proof -
  obtain p0 rest where p: "params = p0 # rest"
    using assms(1) by (cases params) auto
  have parse: "parse_notify (JList params) = Job (array_job params)"
    using assms(1,3) by (simp add: p)
  have t: "truthy (JList params)"
    by (simp add: p)
  have fields: "job_get (array_job params) ''job_id'' = params ! 0"
    "job_get (array_job params) ''blob'' = params ! 1"
    "job_get (array_job params) ''seed_hash'' = (if 2 < length params then params ! 2 else JStr '''')"
    "job_get (array_job params) ''next_seed_hash''
       = (if 3 < length params then params ! 3 else JStr '''')"
    "job_get (array_job params) ''height'' = (if 4 < length params then params ! 4 else JInt 0)"
    "job_get (array_job params) ''difficulty'' = (if 5 < length params then params ! 5 else JInt 1)"
    by (simp_all add: array_job_def dict_get_def)
  have clean: "job_get (array_job params) ''clean_jobs'' = JBool True"
    using assms(2) by (simp add: array_job_def dict_get_def)
  have "handle_message int_of_str (JDict message) c = handle_notify (JList params) c"
    using assms(4,5) by simp
  also have "\<dots> = (None, c\<lparr>current_job := array_job params, job_queue := [array_job params]\<rparr>)"
    unfolding handle_notify_Job [OF t parse] by (simp add: clean)
  finally show ?thesis
    using parse fields clean by simp
qed

theorem short_array_notify_defaults_witness:
  "2 \<le> length params_short \<and> length params_short < 7 \<and> \<not> is_dict (params_short ! 0)
   \<and> dict_get (notify params_short) ''method'' = JStr ''mining.notify''
   \<and> dict_get_default (notify params_short) ''params'' (JList []) = JList params_short
   \<and> array_job params_short =
         JDict [(''job_id'', JStr ''c''), (''blob'', JStr ''02fd''), (''seed_hash'', JStr ''''),
                (''next_seed_hash'', JStr ''''), (''height'', JInt 0), (''difficulty'', JInt 1),
                (''clean_jobs'', JBool True)]
   \<and> handle_message int_of_decimal (JDict (notify params_short))
         (live_client\<lparr>job_queue := [job_a, job_b]\<rparr>)
       = (None, live_client\<lparr>job_queue := [job_a, job_b],
                              current_job := array_job params_short,
                              job_queue := [array_job params_short]\<rparr>)"
proof -
  have 1: "2 \<le> length params_short" and 2: "length params_short < 7"
    and 3: "\<not> is_dict (params_short ! 0)"
    by (simp_all add: params_short_def)
  have 4: "dict_get (notify params_short) ''method'' = JStr ''mining.notify''"
    and 5: "dict_get_default (notify params_short) ''params'' (JList []) = JList params_short"
    by (simp_all add: notify_params)
  have 6: "array_job params_short =
         JDict [(''job_id'', JStr ''c''), (''blob'', JStr ''02fd''), (''seed_hash'', JStr ''''),
                (''next_seed_hash'', JStr ''''), (''height'', JInt 0), (''difficulty'', JInt 1),
                (''clean_jobs'', JBool True)]"
    by (simp add: array_job_def params_short_def)
  from short_array_notify_defaults [OF 1 2 3 4 5, of int_of_decimal
      "live_client\<lparr>job_queue := [job_a, job_b]\<rparr>"]
  have 7: "handle_message int_of_decimal (JDict (notify params_short))
         (live_client\<lparr>job_queue := [job_a, job_b]\<rparr>)
       = (None, live_client\<lparr>job_queue := [job_a, job_b],
                              current_job := array_job params_short,
                              job_queue := [array_job params_short]\<rparr>)"
    by blast
  from 1 2 3 4 5 6 7 show ?thesis by blast
qed

subsection \<open>The listener on a lost connection\<close>

text \<open>
  A socket error while the client is connected: the listener clears \<open>connected\<close>,
  records the reason and leaves the loop (lines 425 to 433). Undecodable data and an
  exception of the handler do the same with a listener error (lines 434 to 438).
\<close>

lemma listen_loop_socket_error:
  assumes "connected c"
  shows "listen_loop loads int_of_str ((None, RecvOSError e) # events) buffer c
         = (Exited, c\<lparr>last_disconnect_reason := Some (SocketError e), connected := False\<rparr>)"
  using assms by simp

lemma listen_loop_other_error:
  assumes "connected c"
  shows "listen_loop loads int_of_str ((None, RecvOtherError e) # events) buffer c
         = (Exited, c\<lparr>last_disconnect_reason := Some (ListenerError e), connected := False\<rparr>)"
  using assms by simp

lemma listen_loop_timeout:
  assumes "connected c"
  shows "listen_loop loads int_of_str ((None, RecvTimeout) # events) buffer c
         = listen_loop loads int_of_str events buffer c"
  using assms by simp

text \<open>
  C7, at the zero-length read. On a connected client a read that returns no data ends the
  loop and changes nothing: \<open>connected\<close> stays true and no reason is recorded (lines 407
  to 410), whereas the claim has \<open>connected\<close> cleared and a reason recorded.
\<close>

theorem listen_loop_zero_length_read:
  "listen_loop loads int_of_str ((None, RecvText []) # events) buffer
     (c\<lparr>connected := True, last_disconnect_reason := None\<rparr>)
   = (Exited, c\<lparr>connected := True, last_disconnect_reason := None\<rparr>)
   \<and> connected (snd (listen_loop loads_nothing int_of_decimal [(None, RecvText [])] [] live_client))
   \<and> last_disconnect_reason
        (snd (listen_loop loads_nothing int_of_decimal [(None, RecvText [])] [] live_client)) = None
   \<and> fst (listen_loop loads_nothing int_of_decimal [(None, RecvText [])] [] live_client) = Exited"
  by (simp add: live_client_def new_client_def)

subsection \<open>Submitting a share\<close>

text \<open>
  C10. \<^verbatim>\<open>submit_share\<close> takes the next request id, registers it as a pending submit and
  counts the share before it sends. It returns \<open>True\<close> exactly when the socket is there
  and the send succeeds; when the send raises it returns \<open>False\<close>, and the counter, the
  request id and the pending id stay as they were set.
\<close>

theorem submit_share_no_rollback:
  assumes "r = submit_share outcome job_id nonce result_hash c"
  shows "shares_sent (snd (snd r)) = shares_sent c + 1
       \<and> request_id (snd (snd r)) = request_id c + 1
       \<and> pending_submit_ids (snd (snd r)) = insert (request_id c) (pending_submit_ids c)
       \<and> sr_id (fst (snd r)) = request_id c
       \<and> (fst r \<longleftrightarrow> socket_open c \<and> outcome = SendOk)
       \<and> (\<not> socket_open c \<longrightarrow> \<not> fst r \<and> connected (snd (snd r)) = connected c)
       \<and> (socket_open c \<and> outcome = SendOSError e \<longrightarrow>
            \<not> fst r \<and> \<not> connected (snd (snd r))
            \<and> last_disconnect_reason (snd (snd r)) = Some (SendFailed e))"
  unfolding assms
  by (cases outcome) (simp_all add: submit_share_def send_request_def Let_def)

theorem submit_share_no_rollback_witness:
  "fst (submit_share (SendOSError ''Broken pipe'') (JStr ''a'') 255 digest_00 live_client) = False
   \<and> shares_sent (snd (snd (submit_share (SendOSError ''Broken pipe'') (JStr ''a'') 255 digest_00
          live_client))) = 1
   \<and> pending_submit_ids (snd (snd (submit_share (SendOSError ''Broken pipe'') (JStr ''a'') 255
          digest_00 live_client))) = {1}
   \<and> request_id (snd (snd (submit_share (SendOSError ''Broken pipe'') (JStr ''a'') 255 digest_00
          live_client))) = 2"
  using submit_share_no_rollback [OF refl, of "SendOSError ''Broken pipe''" "JStr ''a''" 255
      digest_00 live_client "''Broken pipe''"]
  by (simp add: live_client_def new_client_def)

subsection \<open>Hexadecimal text\<close>

declare hex_digits.simps [simp del]

lemma lt_16_cases:
  assumes "(d::nat) < 16"
  shows "d = 0 \<or> d = 1 \<or> d = 2 \<or> d = 3 \<or> d = 4 \<or> d = 5 \<or> d = 6 \<or> d = 7
       \<or> d = 8 \<or> d = 9 \<or> d = 10 \<or> d = 11 \<or> d = 12 \<or> d = 13 \<or> d = 14 \<or> d = 15"
  using assms by arith

lemma hex_digit_value_hex_digit:
  assumes "d < 16"
  shows "hex_digit_value (hex_digit d) = Some d"
  using lt_16_cases [OF assms]
  by (elim disjE) (simp_all add: hex_digit_def hex_digit_value_def)

lemma is_lower_hex_hex_digit:
  assumes "d < 16"
  shows "is_lower_hex (hex_digit d)"
  using lt_16_cases [OF assms]
  by (elim disjE) (simp_all add: hex_digit_def is_lower_hex_def)

lemma hex_digit_not_sign:
  assumes "d < 16"
  shows "hex_digit d \<noteq> CHR ''+'' \<and> hex_digit d \<noteq> CHR ''-''"
  using lt_16_cases [OF assms]
  by (elim disjE) (simp_all add: hex_digit_def)

lemma hex_digits_not_Nil: "hex_digits n \<noteq> []"
  by (subst hex_digits.simps) simp

lemma hex_digits_lower: "ch \<in> set (hex_digits n) \<Longrightarrow> is_lower_hex ch"
proof (induction n arbitrary: ch rule: hex_digits.induct)
  case (1 n)
  show ?case
  proof (cases "n < 16")
    case True
    with "1.prems" show ?thesis
      by (subst (asm) hex_digits.simps) (simp add: is_lower_hex_hex_digit)
  next
    case False
    from "1.prems" have "ch \<in> set (hex_digits (n div 16)) \<or> ch = hex_digit (n mod 16)"
      using False by (subst (asm) hex_digits.simps) auto
    then show ?thesis
      using "1.IH" [OF False] by (auto simp: is_lower_hex_hex_digit)
  qed
qed

lemma hex_digits_hd_not_sign: "hd (hex_digits n) \<noteq> CHR ''+'' \<and> hd (hex_digits n) \<noteq> CHR ''-''"
proof -
  have "hd (hex_digits n) \<in> set (hex_digits n)"
    using hex_digits_not_Nil by simp
  then have "is_lower_hex (hd (hex_digits n))"
    by (rule hex_digits_lower)
  then show ?thesis
    by (auto simp: is_lower_hex_def)
qed

lemma hex_digits_length_le:
  "0 < k \<Longrightarrow> n < 16 ^ k \<Longrightarrow> length (hex_digits n) \<le> k"
proof (induction n arbitrary: k rule: hex_digits.induct)
  case (1 n)
  show ?case
  proof (cases "n < 16")
    case True
    then show ?thesis using "1.prems" by (subst hex_digits.simps) simp
  next
    case False
    obtain j where k: "k = Suc j" using "1.prems"(1) by (cases k) auto
    have "j \<noteq> 0" using False "1.prems"(2) k by (cases j) auto
    then have j: "0 < j" by simp
    have "n div 16 < 16 ^ j"
      using "1.prems"(2) k by (simp add: less_mult_imp_div_less mult.commute)
    from "1.IH" [OF False j this] show ?thesis
      using False k by (subst hex_digits.simps) simp
  qed
qed

lemma hex_digits_length_gt:
  "16 ^ k \<le> n \<Longrightarrow> k < length (hex_digits n)"
proof (induction n arbitrary: k rule: hex_digits.induct)
  case (1 n)
  show ?case
  proof (cases "n < 16")
    case True
    with "1.prems" have "(16::nat) ^ k < 16 ^ 1" by simp
    then have "k < 1" by (simp only: power_strict_increasing_iff) 
    then have "k = 0" by simp
    then show ?thesis using hex_digits_not_Nil [of n] by (cases "hex_digits n") auto
  next
    case False
    show ?thesis
    proof (cases k)
      case 0
      then show ?thesis using hex_digits_not_Nil [of n] by (cases "hex_digits n") auto
    next
      case (Suc j)
      have "16 ^ j \<le> n div 16"
        using "1.prems" Suc by (simp add: less_eq_div_iff_mult_less_eq mult.commute)
      from "1.IH" [OF False this] show ?thesis
        using False Suc by (subst hex_digits.simps) simp
    qed
  qed
qed

lemma parse_hex_from_append:
  "parse_hex_from acc (xs @ ys)
   = (case parse_hex_from acc xs of None \<Rightarrow> None | Some v \<Rightarrow> parse_hex_from v ys)"
  by (induction xs arbitrary: acc) (auto split: option.splits)

lemma parse_hex_from_hex_digits: "parse_hex_from 0 (hex_digits n) = Some n"
proof (induction n rule: hex_digits.induct)
  case (1 n)
  show ?case
  proof (cases "n < 16")
    case True
    then show ?thesis
      by (subst hex_digits.simps) (simp add: hex_digit_value_hex_digit)
  next
    case False
    have "parse_hex_from 0 (hex_digits (n div 16) @ [hex_digit (n mod 16)])
          = Some (16 * (n div 16) + n mod 16)"
      using "1.IH" [OF False] by (simp add: parse_hex_from_append hex_digit_value_hex_digit)
    then show ?thesis
      using False by (subst hex_digits.simps) simp
  qed
qed

lemma parse_hex_from_zeros: "parse_hex_from 0 (replicate k CHR ''0'' @ s) = parse_hex_from 0 s"
  by (induction k) (simp_all add: hex_digit_value_def)

lemma zfill_hex_digits:
  "zfill 8 (hex_digits n) = replicate (8 - length (hex_digits n)) CHR ''0'' @ hex_digits n"
proof (cases "hex_digits n")
  case Nil
  then show ?thesis using hex_digits_not_Nil by simp
next
  case (Cons ch rest)
  then have "ch \<noteq> CHR ''+'' \<and> ch \<noteq> CHR ''-''"
    using hex_digits_hd_not_sign [of n] by simp
  then show ?thesis
    unfolding zfill_def Cons by simp
qed

lemma nonce_hex_nonneg:
  assumes "0 \<le> nonce"
  shows "nonce_hex nonce
         = replicate (8 - length (hex_digits (nat nonce))) CHR ''0'' @ hex_digits (nat nonce)"
  using assms by (simp add: nonce_hex_def py_hex_def zfill_hex_digits)

lemma bytes_hex_length: "length (bytes_hex bs) = 2 * length bs"
  by (induction bs) (simp_all add: bytes_hex_def)

lemma bytes_hex_lower: "ch \<in> set (bytes_hex bs) \<Longrightarrow> is_lower_hex ch"
proof (induction bs)
  case Nil
  then show ?case by (simp add: bytes_hex_def)
next
  case (Cons b bs)
  have "unat b < 256" using unsigned_less [of b] by simp
  then have "unat b div 16 < 16" and "unat b mod 16 < 16" by simp_all
  then have "is_lower_hex (hex_digit (unat b div 16))" "is_lower_hex (hex_digit (unat b mod 16))"
    by (simp_all add: is_lower_hex_hex_digit)
  then show ?case
    using Cons by (auto simp: bytes_hex_def)
qed

lemma bytes_hex_zeros: "bytes_hex (replicate n 0) = replicate (2 * n) CHR ''0''"
  by (induction n) (simp_all add: bytes_hex_def hex_digit_def)

lemma fromhex_pairs_bytes_hex: "fromhex_pairs (bytes_hex bs) = Some bs"
proof (induction bs)
  case Nil
  show ?case by (simp add: bytes_hex_def)
next
  case (Cons b bs)
  have "unat b < 256" using unsigned_less [of b] by simp
  then have d: "unat b div 16 < 16" "unat b mod 16 < 16" by simp_all
  have "(of_nat (16 * (unat b div 16) + unat b mod 16) :: 8 word) = b"
    by simp
  then show ?case
    using Cons d by (simp add: bytes_hex_def hex_digit_value_hex_digit)
qed

text \<open>
  On the 32-bit nonces, \<open>0 \<le> nonce < 2 ^ 32\<close>, \<^verbatim>\<open>submit_share\<close> does what the wire
  format asks: the nonce is sent as exactly 8 lowercase hexadecimal characters, and
  reading them back gives the nonce. The digest is sent as two lowercase hexadecimal
  digits for each byte, which decode to the digest. Nonce 255 is sent as \<open>000000ff\<close> and
  the all-zero digest of 32 bytes as 64 characters \<open>0\<close>.
\<close>

theorem share_formatting:
  assumes "0 \<le> nonce" and "nonce < 2 ^ 32"
  shows "sr_nonce (fst (snd (submit_share outcome job_id nonce result_hash c))) = nonce_hex nonce
       \<and> sr_result (fst (snd (submit_share outcome job_id nonce result_hash c)))
           = bytes_hex result_hash
       \<and> length (nonce_hex nonce) = 8
       \<and> (\<forall>ch \<in> set (nonce_hex nonce). is_lower_hex ch)
       \<and> parse_hex (nonce_hex nonce) = Some nonce
       \<and> length (bytes_hex result_hash) = 2 * length result_hash
       \<and> (\<forall>ch \<in> set (bytes_hex result_hash). is_lower_hex ch)
       \<and> fromhex_pairs (bytes_hex result_hash) = Some result_hash
       \<and> nonce_hex 255 = ''000000ff''
       \<and> bytes_hex (replicate 32 0) = replicate 64 CHR ''0''"
proof -
  let ?ds = "hex_digits (nat nonce)"
  have nh: "nonce_hex nonce = replicate (8 - length ?ds) CHR ''0'' @ ?ds"
    by (rule nonce_hex_nonneg [OF assms(1)])
  have 1: "sr_nonce (fst (snd (submit_share outcome job_id nonce result_hash c))) = nonce_hex nonce"
    and 2: "sr_result (fst (snd (submit_share outcome job_id nonce result_hash c)))
            = bytes_hex result_hash"
    by (simp_all add: submit_share_def Let_def split: prod.splits option.splits)
  have "nat nonce < 16 ^ 8" using assms by simp
  then have "length ?ds \<le> 8" by (intro hex_digits_length_le) simp_all
  then have 3: "length (nonce_hex nonce) = 8" by (simp add: nh)
  have 5: "\<forall>ch \<in> set (nonce_hex nonce). is_lower_hex ch"
  proof
    fix ch assume "ch \<in> set (nonce_hex nonce)"
    then have "ch = CHR ''0'' \<or> ch \<in> set ?ds" by (auto simp: nh)
    moreover have "is_lower_hex CHR ''0''" by (simp add: is_lower_hex_def)
    ultimately show "is_lower_hex ch" using hex_digits_lower by blast
  qed
  have "nonce_hex nonce \<noteq> []"
    using hex_digits_not_Nil by (simp add: nh)
  then have 6: "parse_hex (nonce_hex nonce) = Some nonce"
    using assms(1)
    by (simp add: parse_hex_def) (simp add: nh parse_hex_from_zeros parse_hex_from_hex_digits)
  have 7: "nonce_hex 255 = ''000000ff''"
    by code_simp
  have 8: "bytes_hex (replicate 32 0) = replicate 64 CHR ''0''"
    using bytes_hex_zeros [of 32] by simp
  show ?thesis
    using 1 2 3 5 6 7 8 bytes_hex_length bytes_hex_lower fromhex_pairs_bytes_hex by blast
qed

theorem share_formatting_witness:
  "(0::int) \<le> 255 \<and> (255::int) < 2 ^ 32
   \<and> sr_nonce (fst (snd (submit_share SendOk (JStr ''a'') 255 digest_00 live_client))) = ''000000ff''
   \<and> sr_result (fst (snd (submit_share SendOk (JStr ''a'') 255 digest_00 live_client)))
       = replicate 64 CHR ''0''
   \<and> length (nonce_hex 255) = 8
   \<and> parse_hex (nonce_hex 255) = Some 255"
proof -
  have h: "(0::int) \<le> 255" by simp
  have b: "(255::int) < 2 ^ 32" by simp
  note t = share_formatting [OF h b, of SendOk "JStr ''a''" digest_00 live_client]
  note t1 = t [THEN conjunct1]
  note t2 = t [THEN conjunct2, THEN conjunct1]
  note t3 = t [THEN conjunct2, THEN conjunct2, THEN conjunct1]
  note t5 = t [THEN conjunct2, THEN conjunct2, THEN conjunct2, THEN conjunct2, THEN conjunct1]
  note t9 = t [THEN conjunct2, THEN conjunct2, THEN conjunct2, THEN conjunct2, THEN conjunct2,
               THEN conjunct2, THEN conjunct2, THEN conjunct2, THEN conjunct1]
  note t10 = t [THEN conjunct2, THEN conjunct2, THEN conjunct2, THEN conjunct2, THEN conjunct2,
                THEN conjunct2, THEN conjunct2, THEN conjunct2, THEN conjunct2]
  have 1: "sr_nonce (fst (snd (submit_share SendOk (JStr ''a'') 255 digest_00 live_client)))
           = ''000000ff''"
    unfolding t1 by (rule t9)
  have 2: "sr_result (fst (snd (submit_share SendOk (JStr ''a'') 255 digest_00 live_client)))
           = replicate 64 CHR ''0''"
  proof -
    have z: "bytes_hex digest_00 = replicate 64 CHR ''0''"
      unfolding digest_00_def by (rule t10)
    show ?thesis by (rule trans [OF t2 z])
  qed
  show ?thesis
    by (intro conjI h b 1 2 t3 t5)
qed

text \<open>
  From \<open>2 ^ 32\<close> on the text is longer than 8 characters: \<^verbatim>\<open>zfill\<close> pads and never cuts.
\<close>

lemma nonce_hex_longer:
  assumes "2 ^ 32 \<le> nonce"
  shows "8 < length (nonce_hex nonce)"
proof -
  have "16 ^ 8 \<le> nat nonce" using assms by simp
  then have "8 < length (hex_digits (nat nonce))" by (rule hex_digits_length_gt)
  moreover have "0 \<le> nonce" using assms by simp
  ultimately show ?thesis by (simp add: nonce_hex_nonneg)
qed

lemma submit_share_nonce:
  "sr_nonce (fst (snd (submit_share outcome job_id nonce result_hash c))) = nonce_hex nonce"
  by (simp add: submit_share_def Let_def split: prod.splits option.splits)

text \<open>
  C8, at a nonce of 33 bits. The nonce cursor is not reduced to 32 bits, so after
  \<open>2 ^ 32\<close> nonces of one job \<^verbatim>\<open>submit_share\<close> receives nonce \<open>2 ^ 32\<close>; it sends the 9
  characters \<open>100000000\<close>, whereas the claim and the wire format have exactly 8
  characters for every nonce. The largest 32-bit nonce is sent as \<open>ffffffff\<close>.
\<close>

theorem nonce_hex_nine_characters:
  "sr_nonce (fst (snd (submit_share SendOk (JStr ''a'') 4294967296 digest_00 live_client)))
     = ''100000000''
   \<and> nonce_hex 4294967296 = ''100000000''
   \<and> length (nonce_hex 4294967296) = 9
   \<and> nonce_hex 4294967295 = ''ffffffff''"
  unfolding submit_share_nonce
  by (simp add: nonce_hex_def py_hex_def zfill_def hex_digits.simps hex_digit_def)

end
